theory Spec2Isabelle
  imports Complex_Main
begin

section \<open>Python values used by the Uniswap V3 action provider\<close>

text \<open>
  Python integers are unbounded: \<^typ>\<open>int\<close>.  Strings are \<^typ>\<open>string\<close>; the
  model reads them as ASCII text (one \<^typ>\<open>char\<close> per code point).  An exception is a
  value: its class and the text \<open>str(e)\<close> that the handlers splice into their messages.
\<close>

datatype exn_class =
    ValueError | KeyError | OverflowError | ZeroDivisionError
  | InvalidOperation | DecimalOverflow
  | ValidationError | Web3Error
  | OtherException string

datatype exn = Exn exn_class string

fun exn_str :: "exn \<Rightarrow> string" where
  "exn_str (Exn c m) = m"

fun is_ValueError :: "exn \<Rightarrow> bool" where
  "is_ValueError (Exn c m) = (c = ValueError)"

subsection \<open>String methods\<close>

definition lower_char :: "char \<Rightarrow> char" where
  "lower_char c =
     (case map_of (zip ''ABCDEFGHIJKLMNOPQRSTUVWXYZ'' ''abcdefghijklmnopqrstuvwxyz'') c of
        None \<Rightarrow> c
      | Some l \<Rightarrow> l)"

definition py_lower :: "string \<Rightarrow> string" where
  "py_lower s = map lower_char s"

text \<open>\<open>s.split(sep)\<close> for a one-character separator: never empty, one more part than separators.\<close>

fun py_split :: "char \<Rightarrow> string \<Rightarrow> string list" where
  "py_split sep [] = [[]]"
| "py_split sep (c # cs) =
     (if c = sep then [] # py_split sep cs
      else (case py_split sep cs of [] \<Rightarrow> [[c]] | p # ps \<Rightarrow> (c # p) # ps))"

definition py_ljust :: "string \<Rightarrow> nat \<Rightarrow> char \<Rightarrow> string" where
  "py_ljust s width fill = s @ replicate (width - length s) fill"

definition py_rstrip :: "char \<Rightarrow> string \<Rightarrow> string" where
  "py_rstrip c s = rev (dropWhile (\<lambda>x. x = c) (rev s))"

text \<open>\<open>str.strip()\<close> removes the ASCII white space 9..13 and 28..32; \<open>int()\<close> skips 9..13 and 32 only.\<close>

definition is_str_space :: "char \<Rightarrow> bool" where
  "is_str_space c = (let n = (of_char c :: nat) in (9 \<le> n \<and> n \<le> 13) \<or> (28 \<le> n \<and> n \<le> 32))"

definition is_int_space :: "char \<Rightarrow> bool" where
  "is_int_space c = (let n = (of_char c :: nat) in (9 \<le> n \<and> n \<le> 13) \<or> n = 32)"

definition strip_with :: "(char \<Rightarrow> bool) \<Rightarrow> string \<Rightarrow> string" where
  "strip_with sp s = rev (dropWhile sp (rev (dropWhile sp s)))"

subsection \<open>Decimal digits, \<open>int(str)\<close> and \<open>str(int)\<close>\<close>

definition is_digit :: "char \<Rightarrow> bool" where
  "is_digit c = (c \<in> set ''0123456789'')"

definition digit_val :: "char \<Rightarrow> nat" where
  "digit_val c = of_char c - 48"

definition digits_val :: "string \<Rightarrow> nat" where
  "digits_val s = foldl (\<lambda>acc c. 10 * acc + digit_val c) 0 s"

text \<open>
  The body of an integer literal accepted by \<open>int(s)\<close>: decimal digits, with single
  underscores allowed between digits only.
\<close>

fun valid_int_body :: "string \<Rightarrow> bool" where
  "valid_int_body [] = False"
| "valid_int_body [c] = is_digit c"
| "valid_int_body (c # d # cs) =
     (is_digit c \<and> (if d = CHR ''_'' then valid_int_body cs else valid_int_body (d # cs)))"

text \<open>
  CPython converts between \<open>int\<close> and \<open>str\<close> in base 10 only up to
  \<open>sys.get_int_max_str_digits()\<close> digits, 4300 unless the interpreter is configured
  otherwise: beyond that both \<open>int(s)\<close> and \<open>str(i)\<close> raise \<open>ValueError\<close>.  The
  digits are counted without the sign and the underscores, leading zeros included.
\<close>

definition max_str_digits :: nat where
  "max_str_digits = 4300"

text \<open>
  \<open>int(s)\<close> in base 10: surrounding white space, an optional sign, the body, of at
  most \<open>max_str_digits\<close> digits.  \<open>None\<close> stands for the \<open>ValueError\<close> that \<open>int\<close> raises.
\<close>

definition py_int :: "string \<Rightarrow> int option" where
  "py_int s =
     (case strip_with is_int_space s of
        [] \<Rightarrow> None
      | c # cs \<Rightarrow>
          (let neg = (c = CHR ''-'');
               body = (if c = CHR ''-'' \<or> c = CHR ''+'' then cs else c # cs)
           in if valid_int_body body \<and> length (filter (\<lambda>x. x \<noteq> CHR ''_'') body) \<le> max_str_digits
              then Some ((if neg then - 1 else 1) * int (digits_val (filter (\<lambda>x. x \<noteq> CHR ''_'') body)))
              else None))"

definition digit_char :: "nat \<Rightarrow> char" where
  "digit_char n = ''0123456789'' ! n"

fun str_nat :: "nat \<Rightarrow> string" where
  "str_nat n = (if n < 10 then [digit_char n] else str_nat (n div 10) @ [digit_char (n mod 10)])"

definition str_int :: "int \<Rightarrow> string" where
  "str_int i = (if i < 0 then CHR ''-'' # str_nat (nat (- i)) else str_nat (nat i))"

text \<open>\<open>str(i)\<close>, also as an f-string formats an \<open>int\<close>: the decimal digits, unless
  there are more than \<open>max_str_digits\<close> of them.\<close>

definition int_str_limit :: exn where
  "int_str_limit =
     Exn ValueError (''Exceeds the limit (4300 digits) for integer string conversion; '' @
                     ''use sys.set_int_max_str_digits() to increase the limit'')"

definition py_str :: "int \<Rightarrow> exn + string" where
  "py_str i =
     (if max_str_digits < length (str_nat (nat \<bar>i\<bar>)) then Inl int_str_limit
      else Inr (str_int i))"

fun num_digits :: "nat \<Rightarrow> nat" where
  "num_digits n = (if n < 10 then 1 else Suc (num_digits (n div 10)))"

declare str_nat.simps [simp del] num_digits.simps [simp del]

section \<open>The \<open>decimal\<close> module under its default context\<close>

text \<open>
  \<open>utils.py\<close> goes through \<open>decimal.Decimal\<close> twice: for amounts in exponent notation and
  for formatting balances.  A finite \<open>Decimal\<close> is a sign, a coefficient and an exponent
  (\<open>_sign\<close>, \<open>_int\<close>, \<open>_exp\<close>); the default context has 28 digits of precision, rounds
  half-even, has exponent limits \<open>\<plusminus>999999\<close> and traps \<open>Overflow\<close>.
\<close>

record decimal =
  dec_sign :: bool
  dec_int :: nat
  dec_exp :: int

definition prec :: int where "prec = 28"
definition Emax :: int where "Emax = 999999"
definition Emin :: int where "Emin = - 999999"
definition Etiny :: int where "Etiny = Emin - prec + 1"
definition Etop :: int where "Etop = Emax - prec + 1"

definition Decimal_of_int :: "int \<Rightarrow> decimal" where
  "Decimal_of_int i = \<lparr>dec_sign = (i < 0), dec_int = nat \<bar>i\<bar>, dec_exp = 0\<rparr>"

definition decimal_Overflow :: exn where
  "decimal_Overflow = Exn DecimalOverflow ''[<class 'decimal.Overflow'>]''"

definition decimal_ConversionSyntax :: exn where
  "decimal_ConversionSyntax = Exn InvalidOperation ''[<class 'decimal.ConversionSyntax'>]''"

definition decimal_InvalidOperation :: exn where
  "decimal_InvalidOperation = Exn InvalidOperation ''[<class 'decimal.InvalidOperation'>]''"

text \<open>
  \<open>Decimal._fix\<close>: fit a result into the context.  \<open>exp_min_of d\<close> is the least exponent
  that leaves at most \<open>prec\<close> digits.  A coefficient with too many digits loses its
  last \<open>k\<close> digits, rounding half-even (\<open>round_to_exp\<close>); an adjusted exponent above
  \<open>Emax\<close> raises the trapped \<open>Overflow\<close>; exponents below \<open>Etiny\<close> are rounded up to it.
\<close>

definition exp_min_of :: "decimal \<Rightarrow> int" where
  "exp_min_of d = int (num_digits (dec_int d)) + dec_exp d - prec"

definition round_to_exp :: "decimal \<Rightarrow> int \<Rightarrow> exn + decimal" where
  "round_to_exp d exp_min =
     (let k = nat (exp_min - dec_exp d);
          q = dec_int d div 10 ^ k;
          r = dec_int d mod 10 ^ k;
          up = (10 ^ k < 2 * r \<or> (2 * r = 10 ^ k \<and> odd q));
          coeff = (if up then q + 1 else q);
          carry = (up \<and> prec < int (num_digits coeff))
      in if Etop < (if carry then exp_min + 1 else exp_min) then Inl decimal_Overflow
         else Inr (d\<lparr>dec_int := (if carry then coeff div 10 else coeff),
                     dec_exp := (if carry then exp_min + 1 else exp_min)\<rparr>))"

definition decimal_fix :: "decimal \<Rightarrow> exn + decimal" where
  "decimal_fix d =
     (if dec_int d = 0 then Inr (d\<lparr>dec_exp := min (max (dec_exp d) Etiny) Emax\<rparr>)
      else if Etop < exp_min_of d then Inl decimal_Overflow
      else if dec_exp d < max (exp_min_of d) Etiny then round_to_exp d (max (exp_min_of d) Etiny)
      else Inr d)"

text \<open>\<open>Decimal.__mul__\<close>: the exact product, then \<open>_fix\<close>.\<close>

definition decimal_mul :: "decimal \<Rightarrow> decimal \<Rightarrow> exn + decimal" where
  "decimal_mul a b =
     decimal_fix \<lparr>dec_sign = (dec_sign a \<noteq> dec_sign b),
                  dec_int = dec_int a * dec_int b,
                  dec_exp = dec_exp a + dec_exp b\<rparr>"

text \<open>
  The loop of \<open>Decimal.__truediv__\<close> for an exact quotient: drop trailing zeros of the
  coefficient while the exponent is below the ideal one.
\<close>

function strip_zeros :: "nat \<Rightarrow> int \<Rightarrow> int \<Rightarrow> nat \<times> int" where
  "strip_zeros coeff e ideal =
     (if e < ideal \<and> coeff mod 10 = 0 then strip_zeros (coeff div 10) (e + 1) ideal
      else (coeff, e))"
  by pat_completeness auto
termination
  by (relation "measure (\<lambda>(coeff, e, ideal). nat (ideal - e))") auto

declare strip_zeros.simps [simp del]

text \<open>\<open>Decimal.__truediv__\<close> for a non-zero divisor (the only divisor here is a power of ten).\<close>

definition decimal_truediv :: "decimal \<Rightarrow> decimal \<Rightarrow> exn + decimal" where
  "decimal_truediv a b =
     (let sgn = (dec_sign a \<noteq> dec_sign b)
      in if dec_int a = 0
         then decimal_fix \<lparr>dec_sign = sgn, dec_int = 0, dec_exp = dec_exp a - dec_exp b\<rparr>
         else
           (let shift = int (num_digits (dec_int b)) - int (num_digits (dec_int a)) + prec + 1;
                e = dec_exp a - dec_exp b - shift;
                n = (if 0 \<le> shift then dec_int a * 10 ^ nat shift else dec_int a);
                m = (if 0 \<le> shift then dec_int b else dec_int b * 10 ^ nat (- shift));
                coeff = n div m;
                remainder = n mod m
            in if remainder \<noteq> 0
               then decimal_fix \<lparr>dec_sign = sgn,
                                 dec_int = (if coeff mod 5 = 0 then coeff + 1 else coeff),
                                 dec_exp = e\<rparr>
               else (case strip_zeros coeff e (dec_exp a - dec_exp b) of
                       (coeff', e') \<Rightarrow> decimal_fix \<lparr>dec_sign = sgn, dec_int = coeff', dec_exp = e'\<rparr>)))"

text \<open>\<open>int(Decimal)\<close>: truncation toward zero.\<close>

definition decimal_to_int :: "decimal \<Rightarrow> int" where
  "decimal_to_int d =
     (let s = (if dec_sign d then - 1 else 1)
      in if 0 \<le> dec_exp d then s * int (dec_int d) * 10 ^ nat (dec_exp d)
         else s * int (dec_int d div 10 ^ nat (- dec_exp d)))"

text \<open>\<open>str(Decimal)\<close>: plain notation when the exponent is at most 0 and more than \<open>-6\<close>
  digits lie left of the point, scientific notation with one leading digit otherwise.\<close>

definition decimal_str :: "decimal \<Rightarrow> string" where
  "decimal_str d =
     (let sgn = (if dec_sign d then ''-'' else '''');
          ds = str_nat (dec_int d);
          len = int (length ds);
          leftdigits = dec_exp d + len;
          dotplace = (if dec_exp d \<le> 0 \<and> - 6 < leftdigits then leftdigits else 1);
          intpart = (if dotplace \<le> 0 then ''0''
                     else if len \<le> dotplace then ds @ replicate (nat (dotplace - len)) CHR ''0''
                     else take (nat dotplace) ds);
          fracpart = (if dotplace \<le> 0 then CHR ''.'' # replicate (nat (- dotplace)) CHR ''0'' @ ds
                      else if len \<le> dotplace then ''''
                      else CHR ''.'' # drop (nat dotplace) ds);
          ex = (if leftdigits = dotplace then ''''
                else CHR ''E'' # (if leftdigits - dotplace < 0 then CHR ''-'' else CHR ''+'')
                       # str_nat (nat \<bar>leftdigits - dotplace\<bar>))
      in sgn @ intpart @ fracpart @ ex)"

text \<open>
  \<open>Decimal(s)\<close> for a numeric string: white space stripped, underscores removed, an
  optional sign, digits with an optional point (at least one digit), an optional
  exponent.  The callers below pass only strings that contain \<open>e\<close> or \<open>E\<close>, which the
  \<open>Infinity\<close> and \<open>NaN\<close> spellings never do, so those spellings are left out.

  The constructor is exact.  The C implementation converts under its widest context
  (precision and \<open>Emax\<close> \<open>999999999999999999\<close>, \<open>Emin\<close> the negative of it): more
  fraction digits or more significant digits than that precision are a syntax error
  (\<open>ConversionSyntax\<close>), and a number that does not fit the context unchanged raises
  \<open>InvalidOperation\<close>, that is when the exponent is below the context's \<open>Etiny\<close> or
  when the adjusted exponent (for zero: the exponent) is above its \<open>Emax\<close>.
\<close>

definition MAX_PREC :: int where "MAX_PREC = 999999999999999999"
definition MAX_EMAX :: int where "MAX_EMAX = 999999999999999999"
definition MIN_EMIN :: int where "MIN_EMIN = - 999999999999999999"
definition MIN_ETINY :: int where "MIN_ETINY = MIN_EMIN - (MAX_PREC - 1)"

definition fits_max_context :: "nat \<Rightarrow> int \<Rightarrow> bool" where
  "fits_max_context coeff e =
     (MIN_ETINY \<le> e \<and>
      (if coeff = 0 then e \<le> MAX_EMAX else e + int (num_digits coeff) - 1 \<le> MAX_EMAX))"

datatype decimal_parse = Parsed decimal | ConversionSyntax | NotExact

definition parse_exponent :: "string \<Rightarrow> int option" where
  "parse_exponent s =
     (case s of
        [] \<Rightarrow> Some 0
      | c # cs \<Rightarrow>
          if c = CHR ''e'' \<or> c = CHR ''E'' then
            (let neg = (case cs of [] \<Rightarrow> False | x # xs \<Rightarrow> x = CHR ''-'');
                 body = (case cs of [] \<Rightarrow> []
                         | x # xs \<Rightarrow> if x = CHR ''-'' \<or> x = CHR ''+'' then xs else cs)
             in if body \<noteq> [] \<and> list_all is_digit body
                then Some ((if neg then - 1 else 1) * int (digits_val body))
                else None)
          else None)"

definition Decimal_of_str :: "string \<Rightarrow> decimal_parse" where
  "Decimal_of_str s =
     (let t = filter (\<lambda>x. x \<noteq> CHR ''_'') (strip_with is_str_space s);
          neg = (case t of [] \<Rightarrow> False | c # cs \<Rightarrow> c = CHR ''-'');
          u = (case t of [] \<Rightarrow> []
               | c # cs \<Rightarrow> if c = CHR ''-'' \<or> c = CHR ''+'' then cs else t);
          intpart = takeWhile is_digit u;
          v = dropWhile is_digit u;
          has_point = (case v of [] \<Rightarrow> False | c # cs \<Rightarrow> c = CHR ''.'');
          frac = (if has_point then takeWhile is_digit (tl v) else []);
          w = (if has_point then dropWhile is_digit (tl v) else v)
      in if intpart = [] \<and> frac = [] then ConversionSyntax
         else (case parse_exponent w of
                 None \<Rightarrow> ConversionSyntax
               | Some x \<Rightarrow>
                   if MAX_PREC < int (length frac) \<or>
                      MAX_PREC < int (num_digits (digits_val (intpart @ frac)))
                   then ConversionSyntax
                   else if fits_max_context (digits_val (intpart @ frac)) (x - int (length frac))
                   then Parsed \<lparr>dec_sign = neg, dec_int = digits_val (intpart @ frac),
                                 dec_exp = x - int (length frac)\<rparr>
                   else NotExact))"

section \<open>\<open>utils.py\<close>: amounts\<close>

definition invalid_amount :: "string \<Rightarrow> exn" where
  "invalid_amount amount = Exn ValueError (''Invalid amount format: '' @ amount)"

text \<open>
  \<open>format_amount_with_decimals(amount, decimals)\<close>.  The \<open>try\<close> catches \<open>ValueError\<close>
  only: a failing \<open>int(...)\<close> and a failing unpacking of \<open>parts\<close> are re-raised as
  \<open>Invalid amount format\<close>, while the exceptions of \<open>decimal\<close> (which are
  \<open>ArithmeticError\<close>s) pass through unchanged.
\<close>

definition format_amount_with_decimals :: "string \<Rightarrow> nat \<Rightarrow> exn + int" where
  "format_amount_with_decimals amount decimals =
     (if CHR ''e'' \<in> set (py_lower amount) then
        (case Decimal_of_str amount of
           ConversionSyntax \<Rightarrow> Inl decimal_ConversionSyntax
         | NotExact \<Rightarrow> Inl decimal_InvalidOperation
         | Parsed amount_decimal \<Rightarrow>
             (case decimal_mul amount_decimal (Decimal_of_int (10 ^ decimals)) of
                Inl e \<Rightarrow> Inl e
              | Inr p \<Rightarrow> Inr (decimal_to_int p)))
      else
        (case py_split CHR ''.'' amount of
           [whole] \<Rightarrow>
             (case py_int whole of
                None \<Rightarrow> Inl (invalid_amount amount)
              | Some w \<Rightarrow> Inr (w * 10 ^ decimals))
         | [whole, fraction] \<Rightarrow>
             (let fraction' = (if decimals < length fraction then take decimals fraction
                               else py_ljust fraction decimals CHR ''0'')
              in case py_int whole of
                   None \<Rightarrow> Inl (invalid_amount amount)
                 | Some w \<Rightarrow>
                     (case py_int fraction' of
                        None \<Rightarrow> Inl (invalid_amount amount)
                      | Some f \<Rightarrow> Inr (w * 10 ^ decimals + f)))
         | _ \<Rightarrow> Inl (invalid_amount amount)))"

text \<open>\<open>format_amount_from_decimals(amount, decimals)\<close>.\<close>

definition format_amount_from_decimals :: "int \<Rightarrow> nat \<Rightarrow> exn + string" where
  "format_amount_from_decimals amount decimals =
     (if amount = 0 then Inr ''0''
      else
        (case decimal_truediv (Decimal_of_int amount) (Decimal_of_int (10 ^ decimals)) of
           Inl e \<Rightarrow> Inl e
         | Inr amount_decimal \<Rightarrow>
             (let s = decimal_str amount_decimal
              in Inr (if CHR ''.'' \<in> set s then py_rstrip CHR ''.'' (py_rstrip CHR ''0'' s) else s))))"

section \<open>Python floats\<close>

text \<open>
  A Python \<open>float\<close> is an IEEE 754 binary64 number.  A finite one is kept as its integer
  significand and the exponent of its last bit, \<open>Finite m e\<close> standing for \<open>m * 2 ^ e\<close>
  with \<open>\<bar>m\<bar> < 2 ^ 53\<close> and \<open>- 1074 \<le> e \<le> 971\<close>.  Every operation is the exact
  result rounded to the nearest such number, ties to the even significand, as the
  standard prescribes.  The sign of zero is not kept: nothing below divides by a
  computed zero or prints a zero of a negative product.
\<close>

datatype pyfloat = Finite int int | PosInf | NegInf | NaN

fun bitlen :: "nat \<Rightarrow> nat" where
  "bitlen n = (if n = 0 then 0 else Suc (bitlen (n div 2)))"

declare bitlen.simps [simp del]

text \<open>\<open>floor_log2 n d\<close> is the integer \<open>k\<close> with \<open>2 ^ k \<le> n / d < 2 ^ (k + 1)\<close>, for positive
  \<open>n\<close> and \<open>d\<close>: the difference of the bit lengths, or one less.\<close>

definition floor_log2_from :: "int \<Rightarrow> int \<Rightarrow> int \<Rightarrow> int" where
  "floor_log2_from n d e0 =
     (if (if 0 \<le> e0 then d * 2 ^ nat e0 \<le> n else d \<le> n * 2 ^ nat (- e0)) then e0 else e0 - 1)"

definition floor_log2 :: "int \<Rightarrow> int \<Rightarrow> int" where
  "floor_log2 n d = floor_log2_from n d (int (bitlen (nat n)) - int (bitlen (nat d)))"

text \<open>\<open>n / d\<close> rounded to the nearest integer, ties to even (\<open>0 \<le> n\<close>, \<open>0 < d\<close>):
  from the quotient \<open>f\<close> and twice the remainder \<open>r\<close>.\<close>

definition nearest_even :: "int \<Rightarrow> int \<Rightarrow> int \<Rightarrow> int" where
  "nearest_even f r d = (if r < d then f else if d < r then f + 1 else if even f then f else f + 1)"

definition round_half_even :: "int \<Rightarrow> int \<Rightarrow> int" where
  "round_half_even n d = nearest_even (n div d) (2 * (n mod d)) d"

text \<open>
  The binary64 number nearest to \<open>n / d\<close> (\<open>0 < d\<close>): 53 significant bits, the
  exponent \<open>e\<close> of the last bit never below \<open>- 1074\<close> (subnormal numbers), the
  significand \<open>a / d / 2 ^ e\<close> rounded half-even, and infinity once the rounded value
  reaches \<open>2 ^ 1024\<close>.
\<close>

definition pack :: "bool \<Rightarrow> int \<Rightarrow> int \<Rightarrow> pyfloat" where
  "pack positive m e =
     (if m = 2 ^ 53 then (if 971 < e + 1 then (if positive then PosInf else NegInf)
                          else Finite (if positive then 2 ^ 52 else - (2 ^ 52)) (e + 1))
      else if 971 < e then (if positive then PosInf else NegInf)
      else Finite (if positive then m else - m) e)"

definition round_at :: "bool \<Rightarrow> int \<Rightarrow> int \<Rightarrow> int \<Rightarrow> pyfloat" where
  "round_at positive a d e =
     pack positive
       (if 0 \<le> e then round_half_even a (d * 2 ^ nat e) else round_half_even (a * 2 ^ nat (- e)) d)
       e"

definition round_ratio :: "int \<Rightarrow> int \<Rightarrow> pyfloat" where
  "round_ratio n d =
     (if n = 0 then Finite 0 (- 1074)
      else round_at (0 < n) \<bar>n\<bar> d (max (floor_log2 \<bar>n\<bar> d) (- 1022) - 52))"

text \<open>The binary64 number nearest to \<open>n / d * 2 ^ x\<close>.\<close>

definition round_scaled :: "int \<Rightarrow> int \<Rightarrow> int \<Rightarrow> pyfloat" where
  "round_scaled n d x =
     (if 0 \<le> x then round_ratio (n * 2 ^ nat x) d else round_ratio n (d * 2 ^ nat (- x)))"

definition float_one :: pyfloat where
  "float_one = Finite (2 ^ 52) (- 52)"

text \<open>A float literal such as \<open>0.5\<close> or \<open>100.0\<close>: the double nearest to the decimal fraction.\<close>

definition float_literal :: "int \<Rightarrow> int \<Rightarrow> pyfloat" where
  "float_literal n d = round_ratio n d"

text \<open>\<open>float(i)\<close> as the arithmetic operators convert an \<open>int\<close> operand.\<close>

definition float_of_int :: "int \<Rightarrow> exn + pyfloat" where
  "float_of_int i =
     (case round_ratio i 1 of
        Finite m e \<Rightarrow> Inr (Finite m e)
      | _ \<Rightarrow> Inl (Exn OverflowError ''int too large to convert to float''))"

text \<open>The arithmetic operators on floats: \<open>x / y\<close>, \<open>x - y\<close>, \<open>x * y\<close>.\<close>

definition float_truediv :: "pyfloat \<Rightarrow> pyfloat \<Rightarrow> exn + pyfloat" where
  "float_truediv x y =
     (case y of
        Finite m2 e2 \<Rightarrow>
          if m2 = 0 then Inl (Exn ZeroDivisionError ''float division by zero'')
          else (case x of
                  Finite m1 e1 \<Rightarrow> Inr (round_scaled (if 0 < m2 then m1 else - m1) \<bar>m2\<bar> (e1 - e2))
                | PosInf \<Rightarrow> Inr (if 0 < m2 then PosInf else NegInf)
                | NegInf \<Rightarrow> Inr (if 0 < m2 then NegInf else PosInf)
                | NaN \<Rightarrow> Inr NaN)
      | NaN \<Rightarrow> Inr NaN
      | _ \<Rightarrow> (case x of Finite m1 e1 \<Rightarrow> Inr (Finite 0 (- 1074)) | _ \<Rightarrow> Inr NaN))"

definition float_neg :: "pyfloat \<Rightarrow> pyfloat" where
  "float_neg x = (case x of Finite m e \<Rightarrow> Finite (- m) e | PosInf \<Rightarrow> NegInf | NegInf \<Rightarrow> PosInf | NaN \<Rightarrow> NaN)"

definition float_add :: "pyfloat \<Rightarrow> pyfloat \<Rightarrow> pyfloat" where
  "float_add x y =
     (case x of
        Finite m1 e1 \<Rightarrow>
          (case y of
             Finite m2 e2 \<Rightarrow>
               if m2 = 0 then x
               else if m1 = 0 then y
               else round_scaled (m1 * 2 ^ nat (e1 - min e1 e2) + m2 * 2 ^ nat (e2 - min e1 e2)) 1
                      (min e1 e2)
           | _ \<Rightarrow> y)
      | PosInf \<Rightarrow> (case y of NegInf \<Rightarrow> NaN | NaN \<Rightarrow> NaN | _ \<Rightarrow> PosInf)
      | NegInf \<Rightarrow> (case y of PosInf \<Rightarrow> NaN | NaN \<Rightarrow> NaN | _ \<Rightarrow> NegInf)
      | NaN \<Rightarrow> NaN)"

definition float_sub :: "pyfloat \<Rightarrow> pyfloat \<Rightarrow> pyfloat" where
  "float_sub x y = float_add x (float_neg y)"

definition float_mul :: "pyfloat \<Rightarrow> pyfloat \<Rightarrow> pyfloat" where
  "float_mul x y =
     (case x of
        Finite m1 e1 \<Rightarrow>
          (case y of
             Finite m2 e2 \<Rightarrow> round_scaled (m1 * m2) 1 (e1 + e2)
           | NaN \<Rightarrow> NaN
           | PosInf \<Rightarrow> (if m1 = 0 then NaN else if 0 < m1 then PosInf else NegInf)
           | NegInf \<Rightarrow> (if m1 = 0 then NaN else if 0 < m1 then NegInf else PosInf))
      | NaN \<Rightarrow> NaN
      | PosInf \<Rightarrow>
          (case y of
             Finite m2 e2 \<Rightarrow> (if m2 = 0 then NaN else if 0 < m2 then PosInf else NegInf)
           | NaN \<Rightarrow> NaN | PosInf \<Rightarrow> PosInf | NegInf \<Rightarrow> NegInf)
      | NegInf \<Rightarrow>
          (case y of
             Finite m2 e2 \<Rightarrow> (if m2 = 0 then NaN else if 0 < m2 then NegInf else PosInf)
           | NaN \<Rightarrow> NaN | PosInf \<Rightarrow> NegInf | NegInf \<Rightarrow> PosInf))"

text \<open>\<open>int(x)\<close> of a float: truncation toward zero; infinities and NaN raise.\<close>

definition float_to_int :: "pyfloat \<Rightarrow> exn + int" where
  "float_to_int x =
     (case x of
        Finite m e \<Rightarrow>
          Inr (if 0 \<le> e then m * 2 ^ nat e
               else if 0 \<le> m then m div 2 ^ nat (- e)
               else - (- m div 2 ^ nat (- e)))
      | NaN \<Rightarrow> Inl (Exn ValueError ''cannot convert float NaN to integer'')
      | _ \<Rightarrow> Inl (Exn OverflowError ''cannot convert float infinity to integer''))"





section \<open>\<open>utils.py\<close>: slippage and deadline\<close>

text \<open>
  \<open>calculate_slippage_amounts(amount, slippage_percentage)\<close>:
  \<open>slippage_factor = 1 - (slippage_percentage / 100.0)\<close>, then
  \<open>int(amount * slippage_factor)\<close>.  The integer operands \<open>1\<close> and \<open>amount\<close> are
  converted to floats by the operators.
\<close>

definition calculate_slippage_amounts :: "int \<Rightarrow> pyfloat \<Rightarrow> exn + int" where
  "calculate_slippage_amounts amount slippage_percentage =
     (case float_truediv slippage_percentage (float_literal 100 1) of
        Inl e \<Rightarrow> Inl e
      | Inr x \<Rightarrow>
          (case float_of_int 1 of
             Inl e \<Rightarrow> Inl e
           | Inr one \<Rightarrow>
               (case float_of_int amount of
                  Inl e \<Rightarrow> Inl e
                | Inr a \<Rightarrow> float_to_int (float_mul a (float_sub one x)))))"

text \<open>\<open>get_deadline()\<close>: \<open>int(time.time()) + 1800\<close>, from the whole seconds the clock shows.\<close>

definition get_deadline :: "int \<Rightarrow> int" where
  "get_deadline now = now + 1800"

section \<open>\<open>constants.py\<close>\<close>

text \<open>
  The address tables.  \<open>Web3.to_checksum_address\<close> changes only the case of the
  hexadecimal digits (by a Keccak hash that is not modelled): addresses are kept here
  in lower case, the form the source writes the literals in.
\<close>

definition SUPPORTED_NETWORKS :: "string list" where
  "SUPPORTED_NETWORKS = [''ethereum-mainnet'']"

definition POSITION_MANAGER_ADDRESSES :: "(string \<times> string) list" where
  "POSITION_MANAGER_ADDRESSES =
     [(''ethereum-mainnet'', ''0xc36442b4a4522e871399cd717abdd847ab11fe88'')]"

definition ASSET_ADDRESSES :: "(string \<times> (string \<times> string) list) list" where
  "ASSET_ADDRESSES =
     [(''ethereum-mainnet'',
        [(''weth'', ''0xc02aaa39b223fe8d0a0e5c4f27ead9083c756cc2''),
         (''usdc'', ''0xa0b86991c6218b36c1d19d4a2e9eb0ce3606eb48'')])]"

definition ASSET_DECIMALS :: "(string \<times> nat) list" where
  "ASSET_DECIMALS = [(''weth'', 18), (''usdc'', 6)]"

definition UNISWAP_V3_FACTORY_ADDRESS :: "(string \<times> string) list" where
  "UNISWAP_V3_FACTORY_ADDRESS =
     [(''ethereum-mainnet'', ''0x1f98431c8ad98523631ae4a59f267346ea31f984'')]"

text \<open>\<open>d[key]\<close> on a dictionary with string keys; the key may be \<open>None\<close>.  A missing key
  raises \<open>KeyError\<close>, whose text is the \<open>repr\<close> of the key.\<close>

definition str_opt :: "string option \<Rightarrow> string" where
  "str_opt k = (case k of None \<Rightarrow> ''None'' | Some s \<Rightarrow> s)"

definition repr_opt :: "string option \<Rightarrow> string" where
  "repr_opt k = (case k of None \<Rightarrow> ''None'' | Some s \<Rightarrow> [CHR 0x27] @ s @ [CHR 0x27])"

definition getitem :: "(string \<times> 'v) list \<Rightarrow> string option \<Rightarrow> exn + 'v" where
  "getitem d k =
     (case k of
        None \<Rightarrow> Inl (Exn KeyError (repr_opt k))
      | Some s \<Rightarrow> (case map_of d s of None \<Rightarrow> Inl (Exn KeyError (repr_opt k)) | Some v \<Rightarrow> Inr v))"

definition contains_key :: "(string \<times> 'v) list \<Rightarrow> string option \<Rightarrow> bool" where
  "contains_key d k = (case k of None \<Rightarrow> False | Some s \<Rightarrow> map_of d s \<noteq> None)"

section \<open>The wallet provider, web3 and the trace of a call\<close>

record network =
  protocol_family :: string
  network_id :: "string option"
  chain_id :: "string option"

record mint_params =
  token0 :: string
  token1 :: string
  fee :: int
  tickLower :: int
  tickUpper :: int
  amount0Desired :: int
  amount1Desired :: int
  amount0Min :: int
  amount1Min :: int
  recipient :: string
  deadline :: int

datatype calldata = ApproveData string int | EncodedData string

record tx_params =
  tx_to :: string
  tx_data :: calldata
  tx_gas :: "int option"

record log_entry =
  log_address :: string
  log_topics :: "nat list"

record tx_receipt =
  receipt_status :: int
  receipt_logs :: "log_entry list"

datatype abi_arg = AbiAddress string | AbiUint int

text \<open>
  What a handler does to the outside world, in order: the calls on the wallet
  provider (and on the \<open>web3\<close> object it hands out) and the lines printed.  Two prints
  carry text that is not modelled (a traceback, the \<open>repr\<close> of a float) and are kept
  as structured events.
\<close>

datatype event =
    GetNetwork
  | GetAddress
  | ReadContract string string "abi_arg list"
  | SendTransaction tx_params
  | WaitForTransactionReceipt string
  | GetWeb3
  | Web3Contract string
  | EncodeMint mint_params
  | Print string
  | PrintTraceback exn
  | PrintTransactionParameters string mint_params pyfloat int

text \<open>
  The injected wallet provider is arbitrary: each method answers with a value or an
  exception, depending on its arguments and on everything that happened before (the
  trace so far).  \<open>read_contract\<close> is split by the ABI function read, with the result
  type that ABI declares.  The last three fields are the \<open>web3\<close> attribute of the
  provider, \<open>web3.eth.contract(...)\<close> and \<open>contract.functions.mint(t)._encode_transaction_data()\<close>.
\<close>

record wallet_provider =
  get_network :: "event list \<Rightarrow> exn + network"
  get_address :: "event list \<Rightarrow> exn + string"
  read_contract_balanceOf :: "event list \<Rightarrow> string \<Rightarrow> string \<Rightarrow> exn + int"
  read_contract_getPool :: "event list \<Rightarrow> string \<Rightarrow> string \<Rightarrow> string \<Rightarrow> int \<Rightarrow> exn + string"
  read_contract_slot0 :: "event list \<Rightarrow> string \<Rightarrow> exn + (int \<times> int)"
  send_transaction :: "event list \<Rightarrow> tx_params \<Rightarrow> exn + string"
  wait_for_transaction_receipt :: "event list \<Rightarrow> string \<Rightarrow> exn + tx_receipt"
  web3 :: "event list \<Rightarrow> exn + unit"
  web3_eth_contract :: "event list \<Rightarrow> string \<Rightarrow> exn + unit"
  mint_encode_transaction_data :: "event list \<Rightarrow> mint_params \<Rightarrow> exn + string"

text \<open>
  A statement sequence either goes on with a value, or has executed \<open>return s\<close>, or has
  raised; it extends the trace.  \<open>io_try\<close> is \<open>try: ... except Exception as e: ...\<close>.
\<close>

datatype 'a res = Ok 'a | Returned string | Raised exn

type_synonym 'a io = "event list \<Rightarrow> 'a res \<times> event list"

definition io_pure :: "'a \<Rightarrow> 'a io" where
  "io_pure x tr = (Ok x, tr)"

definition io_return :: "string \<Rightarrow> 'a io" where
  "io_return s tr = (Returned s, tr)"

definition io_lift :: "exn + 'a \<Rightarrow> 'a io" where
  "io_lift r tr = (case r of Inl e \<Rightarrow> (Raised e, tr) | Inr x \<Rightarrow> (Ok x, tr))"

definition io_bind :: "'a io \<Rightarrow> ('a \<Rightarrow> 'b io) \<Rightarrow> 'b io" where
  "io_bind m f tr =
     (case m tr of
        (Ok x, tr') \<Rightarrow> f x tr'
      | (Returned s, tr') \<Rightarrow> (Returned s, tr')
      | (Raised e, tr') \<Rightarrow> (Raised e, tr'))"

definition io_try :: "'a io \<Rightarrow> (exn \<Rightarrow> 'a io) \<Rightarrow> 'a io" where
  "io_try m handler tr =
     (case m tr of
        (Raised e, tr') \<Rightarrow> handler e tr'
      | (r, tr') \<Rightarrow> (r, tr'))"

definition io_call :: "event \<Rightarrow> (event list \<Rightarrow> exn + 'a) \<Rightarrow> 'a io" where
  "io_call ev method tr =
     (case method tr of Inl e \<Rightarrow> (Raised e, tr @ [ev]) | Inr x \<Rightarrow> (Ok x, tr @ [ev]))"

definition io_emit :: "event \<Rightarrow> unit io" where
  "io_emit ev tr = (Ok (), tr @ [ev])"

definition io_clock :: "(event list \<Rightarrow> int) \<Rightarrow> int io" where
  "io_clock clock tr = (Ok (clock tr), tr)"

datatype outcome = Return string | Raise exn

text \<open>The result of a handler whose body ends in \<open>return\<close> statements.\<close>

definition run_handler :: "string io \<Rightarrow> outcome \<times> event list" where
  "run_handler body =
     (case body [] of
        (Ok s, tr) \<Rightarrow> (Return s, tr)
      | (Returned s, tr) \<Rightarrow> (Return s, tr)
      | (Raised e, tr) \<Rightarrow> (Raise e, tr))"

subsection \<open>\<open>Web3.to_checksum_address\<close> and the ERC-20 \<open>approve\<close> encoding\<close>

definition is_hex_digit :: "char \<Rightarrow> bool" where
  "is_hex_digit c = (c \<in> set ''0123456789abcdefABCDEF'')"

definition remove_0x_prefix :: "string \<Rightarrow> string" where
  "remove_0x_prefix s = (if take 2 s = ''0x'' \<or> take 2 s = ''0X'' then drop 2 s else s)"

definition is_hex_address :: "string \<Rightarrow> bool" where
  "is_hex_address s = (length (remove_0x_prefix s) = 40 \<and> list_all is_hex_digit (remove_0x_prefix s))"

text \<open>A string that is not 40 hexadecimal digits (with or without \<open>0x\<close>) is refused
  with a \<open>ValueError\<close>; the text of that error is abbreviated.\<close>

definition to_checksum_address :: "string \<Rightarrow> exn + string" where
  "to_checksum_address s =
     (if is_hex_address s then Inr (''0x'' @ py_lower (remove_0x_prefix s))
      else Inl (Exn ValueError (''Unknown format '' @ s)))"

text \<open>\<open>encode_abi("approve", args=[spender, amount])\<close>: the amount must be a \<open>uint256\<close>;
  the text of web3's error is abbreviated.\<close>

definition encode_approve :: "string \<Rightarrow> int \<Rightarrow> exn + calldata" where
  "encode_approve spender amount =
     (if 0 \<le> amount \<and> amount < 2 ^ 256 then Inr (ApproveData spender amount)
      else Inl (Exn Web3Error ''Could not identify the intended function with name `approve`''))"

section \<open>\<open>utils.py\<close>: balances and approvals\<close>

definition get_token_balance :: "wallet_provider \<Rightarrow> string \<Rightarrow> int io" where
  "get_token_balance wallet token_address =
     io_try
       (let token_address' =
              (if py_lower token_address = py_lower ''0xc02aaa39b223fe8d0a0e5c4f27ead9083c756cc2''
               then ''0xc02aaa39b223fe8d0a0e5c4f27ead9083c756cc2''
               else if py_lower token_address = py_lower ''0xa0b86991c6218b36c1d19d4a2e9eb0ce3606eb48''
               then ''0xa0b86991c6218b36c1d19d4a2e9eb0ce3606eb48''
               else token_address)
        in io_bind (io_call GetAddress (get_address wallet)) (\<lambda>owner.
           io_call (ReadContract (py_lower token_address') ''balanceOf'' [AbiAddress owner])
             (\<lambda>tr. read_contract_balanceOf wallet tr (py_lower token_address') owner)))
       (\<lambda>e. io_lift (Inl (Exn ValueError (''Could not get token balance: '' @ exn_str e))))"

definition approve_token :: "wallet_provider \<Rightarrow> string \<Rightarrow> string \<Rightarrow> int \<Rightarrow> string io" where
  "approve_token wallet token_address spender_address amount =
     io_bind (io_lift (to_checksum_address token_address)) (\<lambda>contract_address.
     io_bind (io_lift (to_checksum_address spender_address)) (\<lambda>spender.
     io_bind (io_lift (encode_approve spender amount)) (\<lambda>encoded_data.
     io_bind (io_lift (to_checksum_address token_address)) (\<lambda>to.
     io_bind (io_call (SendTransaction \<lparr>tx_to = to, tx_data = encoded_data, tx_gas = None\<rparr>)
               (\<lambda>tr. send_transaction wallet tr \<lparr>tx_to = to, tx_data = encoded_data, tx_gas = None\<rparr>))
       (\<lambda>tx_hash.
     io_bind (io_call (WaitForTransactionReceipt tx_hash)
               (\<lambda>tr. wait_for_transaction_receipt wallet tr tx_hash)) (\<lambda>receipt.
     io_pure tx_hash))))))"

section \<open>\<open>uniswap_v3_action_provider.py\<close>\<close>

text \<open>
  The validated arguments of the two actions.  Validation itself is pydantic's; its
  outcome (the record, or the exception it raises) is the input of a handler.
\<close>

record CreateLiquiditySchema =
  amount_weth :: string
  amount_usdc :: string
  tick_lower :: int
  tick_upper :: int
  fee_tier :: int
  slippage :: pyfloat

record GetPriceSchema =
  price_fee_tier :: int

definition supports_network :: "network \<Rightarrow> bool" where
  "supports_network n =
     (protocol_family n = ''evm'' \<and>
      (chain_id n = Some ''1'' \<or> network_id n \<in> set [Some ''mainnet'', Some ''ethereum-mainnet'']))"

definition get_position_manager_address :: "network \<Rightarrow> exn + string" where
  "get_position_manager_address n =
     (if chain_id n = Some ''1'' then getitem POSITION_MANAGER_ADDRESSES (Some ''ethereum-mainnet'')
      else if contains_key POSITION_MANAGER_ADDRESSES (network_id n)
      then getitem POSITION_MANAGER_ADDRESSES (network_id n)
      else Inl (Exn ValueError
                 (''No Position Manager address available for network '' @ str_opt (network_id n))))"

definition asset_not_supported :: "network \<Rightarrow> string \<Rightarrow> exn" where
  "asset_not_supported n asset_id =
     Exn ValueError (''Asset '' @ asset_id @ '' not supported on '' @ str_opt (network_id n))"

definition get_asset_address :: "network \<Rightarrow> string \<Rightarrow> exn + string" where
  "get_asset_address n asset_id =
     (case getitem ASSET_ADDRESSES
             (if chain_id n = Some ''1'' then Some ''ethereum-mainnet'' else network_id n) of
        Inl err \<Rightarrow> Inl (asset_not_supported n asset_id)
      | Inr assets \<Rightarrow>
          (case getitem assets (Some asset_id) of
             Inl err \<Rightarrow> Inl (asset_not_supported n asset_id)
           | Inr a \<Rightarrow> Inr a))"

definition newline :: string where
  "newline = [CHR 0x0A]"

text \<open>The message of the three \<open>except Exception\<close> blocks of \<open>create_liquidity\<close>.\<close>

definition creation_error :: "exn \<Rightarrow> string" where
  "creation_error e =
     ''Error creating Uniswap V3 liquidity position: '' @ exn_str e @ newline @
     ''Try using ticks that align with 0.05% fee tier spacing (10): tickLower=202540, tickUpper=202640''"

definition on_creation_error :: "exn \<Rightarrow> string io" where
  "on_creation_error e = io_bind (io_emit (PrintTraceback e)) (\<lambda>u. io_return (creation_error e))"

text \<open>Lines 211 to 223: the tick spacing and the fee tier used, from the requested tier;
  an unsupported tier prints a warning.\<close>

definition fee_tier_warning :: "int \<Rightarrow> exn + string" where
  "fee_tier_warning f =
     (case py_str f of
        Inl e \<Rightarrow> Inl e
      | Inr t \<Rightarrow> Inr (''Warning: Unsupported fee tier '' @ t @ '', defaulting to 0.05% (500)''))"

definition determine_tick_spacing :: "int \<Rightarrow> (int \<times> int) io" where
  "determine_tick_spacing fee_tier' =
     (if fee_tier' = 500 then io_pure (10, fee_tier')
      else if fee_tier' = 3000 then io_pure (60, fee_tier')
      else if fee_tier' = 10000 then io_pure (200, fee_tier')
      else io_bind (io_lift (fee_tier_warning fee_tier')) (\<lambda>warning.
           io_bind (io_emit (Print warning)) (\<lambda>u. io_pure (10, 500))))"

text \<open>Lines 225 to 234: each tick floored to the spacing (Python's \<open>//\<close> is \<open>div\<close> on
  \<^typ>\<open>int\<close>), then the upper one pushed above the lower one.\<close>

definition round_tick :: "int \<Rightarrow> int \<Rightarrow> int" where
  "round_tick tick tick_spacing = (tick div tick_spacing) * tick_spacing"

definition adjust_upper_tick :: "int \<Rightarrow> int \<Rightarrow> int \<Rightarrow> int" where
  "adjust_upper_tick lower_tick upper_tick tick_spacing =
     (if upper_tick \<le> lower_tick then lower_tick + tick_spacing else upper_tick)"

text \<open>Lines 291 to 299: the token id from the first log of the position manager with
  more than three topics; a topic is kept as the number its bytes spell.\<close>

definition find_token_id :: "string \<Rightarrow> log_entry list \<Rightarrow> nat option" where
  "find_token_id position_manager_address logs =
     (case find (\<lambda>l. py_lower (log_address l) = py_lower position_manager_address
                      \<and> 3 < length (log_topics l)) logs of
        None \<Rightarrow> None
      | Some l \<Rightarrow> Some (log_topics l ! 3))"

definition token_id_msg :: "nat option \<Rightarrow> exn + string" where
  "token_id_msg token_id =
     (case token_id of
        None \<Rightarrow> Inr []
      | Some t \<Rightarrow>
          if t = 0 then Inr []
          else (case py_str (int t) of
                  Inl e \<Rightarrow> Inl e
                | Inr s \<Rightarrow> Inr (newline @ ''Position NFT ID: '' @ s)))"

definition success_message ::
    "CreateLiquiditySchema \<Rightarrow> int \<Rightarrow> int \<Rightarrow> int \<Rightarrow> string \<Rightarrow> string \<Rightarrow> exn + string" where
  "success_message a lower_tick upper_tick fee_tier' tx_hash id_msg =
     (case py_str lower_tick of
        Inl e \<Rightarrow> Inl e
      | Inr lower \<Rightarrow>
          (case py_str upper_tick of
             Inl e \<Rightarrow> Inl e
           | Inr upper \<Rightarrow>
               (case py_str fee_tier' of
                  Inl e \<Rightarrow> Inl e
                | Inr f \<Rightarrow>
                    Inr (''Successfully created Uniswap V3 liquidity position with:'' @ newline @
                         ''- '' @ amount_weth a @ '' WETH'' @ newline @
                         ''- '' @ amount_usdc a @ '' USDC'' @ newline @
                         ''- Price range ticks: '' @ lower @ '' to '' @ upper @
                           '' (aligned with fee tier spacing)'' @ newline @
                         ''- Fee tier: '' @ f @ newline @
                         ''Transaction hash: '' @ tx_hash @ id_msg))))"

text \<open>The integers that the debug print of the transaction parameters formats: the
  print raises as soon as one of them has too many digits.\<close>

definition formattable :: "int list \<Rightarrow> exn + unit" where
  "formattable xs =
     (if list_all (\<lambda>i. length (str_nat (nat \<bar>i\<bar>)) \<le> max_str_digits) xs then Inr ()
      else Inl int_str_limit)"

definition insufficient_balance :: "string \<Rightarrow> string \<Rightarrow> string \<Rightarrow> string" where
  "insufficient_balance symbol formatted needed =
     ''Error: Insufficient '' @ symbol @ '' balance. You have '' @ formatted @ '' '' @ symbol @
     '', but need '' @ needed @ '' '' @ symbol"

text \<open>
  \<open>create_liquidity(wallet_provider, args)\<close>.  \<open>clock\<close> gives the whole seconds of
  \<open>time.time()\<close>.  The steps follow the source line by line (the part from line 207 on
  is \<open>create_liquidity_mint\<close>); the whole body stands in one \<open>try\<close> whose
  \<open>except Exception\<close> returns the error message.
\<close>

definition create_liquidity_mint ::
    "(event list \<Rightarrow> int) \<Rightarrow> wallet_provider \<Rightarrow> CreateLiquiditySchema \<Rightarrow> string \<Rightarrow> string \<Rightarrow> string \<Rightarrow>
     int \<Rightarrow> int \<Rightarrow> int \<Rightarrow> int \<Rightarrow> string io" where
  "create_liquidity_mint clock wallet a position_manager_address weth_address usdc_address
       amount_weth_units amount_usdc_units amount_weth_min amount_usdc_min =
     io_bind (io_call GetWeb3 (web3 wallet)) (\<lambda>web3_instance.
     io_bind (determine_tick_spacing (fee_tier a)) (\<lambda>(tick_spacing, fee_tier').
     io_bind (io_lift (to_checksum_address position_manager_address)) (\<lambda>contract_address.
     io_bind (io_call (Web3Contract contract_address) (\<lambda>tr. web3_eth_contract wallet tr contract_address))
       (\<lambda>contract.
     io_bind (io_clock clock) (\<lambda>now.
     io_bind (io_call GetAddress (get_address wallet)) (\<lambda>recipient'.
     io_bind (io_lift (to_checksum_address usdc_address)) (\<lambda>t0.
     io_bind (io_lift (to_checksum_address weth_address)) (\<lambda>t1.
     io_bind (io_pure
               \<lparr>token0 = t0, token1 = t1,
                fee = fee_tier',
                tickLower = round_tick (tick_lower a) tick_spacing,
                tickUpper = adjust_upper_tick (round_tick (tick_lower a) tick_spacing)
                              (round_tick (tick_upper a) tick_spacing) tick_spacing,
                amount0Desired = amount_usdc_units, amount1Desired = amount_weth_units,
                amount0Min = amount_usdc_min, amount1Min = amount_weth_min,
                recipient = recipient', deadline = get_deadline now\<rparr>) (\<lambda>mint_tuple.
     io_bind (io_call (EncodeMint mint_tuple) (\<lambda>tr. mint_encode_transaction_data wallet tr mint_tuple))
       (\<lambda>encoded_data.
     io_bind (io_lift (to_checksum_address position_manager_address)) (\<lambda>to.
     io_bind (io_lift (formattable [fee mint_tuple, tickLower mint_tuple, tickUpper mint_tuple,
                                    amount0Desired mint_tuple, amount1Desired mint_tuple])) (\<lambda>f.
     io_bind (io_clock clock) (\<lambda>now'.
     io_bind (io_lift (formattable [get_deadline now'])) (\<lambda>f'.
     io_bind (io_emit (PrintTransactionParameters position_manager_address mint_tuple (slippage a)
                         (get_deadline now'))) (\<lambda>u'.
     io_try
       (io_bind (io_call (SendTransaction \<lparr>tx_to = to, tx_data = EncodedData encoded_data,
                                           tx_gas = Some 3000000\<rparr>)
                  (\<lambda>tr. send_transaction wallet tr
                           \<lparr>tx_to = to, tx_data = EncodedData encoded_data, tx_gas = Some 3000000\<rparr>))
          (\<lambda>tx_hash.
        io_bind (io_call (WaitForTransactionReceipt tx_hash)
                  (\<lambda>tr. wait_for_transaction_receipt wallet tr tx_hash)) (\<lambda>receipt.
        if receipt_status receipt \<noteq> 1
        then io_return (''Error: Liquidity position creation failed. Transaction hash: '' @ tx_hash)
        else
        io_bind (io_lift (token_id_msg (find_token_id position_manager_address (receipt_logs receipt))))
          (\<lambda>id_msg.
        io_bind (io_lift (success_message a (tickLower mint_tuple) (tickUpper mint_tuple)
                            (fee mint_tuple) tx_hash id_msg)) io_return))))
       on_creation_error)))))))))))))))"

definition create_liquidity_body ::
    "(event list \<Rightarrow> int) \<Rightarrow> wallet_provider \<Rightarrow> exn + CreateLiquiditySchema \<Rightarrow> string io" where
  "create_liquidity_body clock wallet args =
     io_bind (io_lift args) (\<lambda>a.
     io_bind (io_call GetNetwork (get_network wallet)) (\<lambda>n.
     if \<not> supports_network n
     then io_return (''Error: Network '' @ str_opt (network_id n) @ '' is not supported by Uniswap V3'')
     else
     io_bind (io_try (io_lift (get_position_manager_address n))
               (\<lambda>e. io_return (''Error: Could not get Uniswap V3 Position Manager address for '' @
                                 str_opt (network_id n) @ '': '' @ exn_str e)))
       (\<lambda>position_manager_address.
     io_bind (io_try
               (io_bind (io_lift (get_asset_address n ''weth'')) (\<lambda>w.
                io_bind (io_lift (get_asset_address n ''usdc'')) (\<lambda>u. io_pure (w, u))))
               (\<lambda>e. if is_ValueError e then io_return (''Error: '' @ exn_str e)
                     else io_return (''Error: Could not get asset addresses on '' @
                                       str_opt (network_id n) @ '': '' @ exn_str e)))
       (\<lambda>(weth_address, usdc_address).
     io_bind (io_lift (getitem ASSET_DECIMALS (Some ''weth''))) (\<lambda>weth_decimals.
     io_bind (io_lift (getitem ASSET_DECIMALS (Some ''usdc''))) (\<lambda>usdc_decimals.
     io_bind (io_lift (format_amount_with_decimals (amount_weth a) weth_decimals)) (\<lambda>amount_weth_units.
     io_bind (io_lift (format_amount_with_decimals (amount_usdc a) usdc_decimals)) (\<lambda>amount_usdc_units.
     io_bind (get_token_balance wallet weth_address) (\<lambda>weth_balance.
     io_bind (get_token_balance wallet usdc_address) (\<lambda>usdc_balance.
     if weth_balance < amount_weth_units
     then io_bind (io_lift (format_amount_from_decimals weth_balance weth_decimals)) (\<lambda>weth_formatted.
          io_return (insufficient_balance ''WETH'' weth_formatted (amount_weth a)))
     else if usdc_balance < amount_usdc_units
     then io_bind (io_lift (format_amount_from_decimals usdc_balance usdc_decimals)) (\<lambda>usdc_formatted.
          io_return (insufficient_balance ''USDC'' usdc_formatted (amount_usdc a)))
     else
     io_bind (io_lift (calculate_slippage_amounts amount_weth_units (slippage a))) (\<lambda>amount_weth_min.
     io_bind (io_lift (calculate_slippage_amounts amount_usdc_units (slippage a))) (\<lambda>amount_usdc_min.
     io_bind (io_try
               (io_bind (get_token_balance wallet weth_address) (\<lambda>weth_balance'.
                io_bind (get_token_balance wallet usdc_address) (\<lambda>usdc_balance'.
                io_bind (io_lift (format_amount_from_decimals weth_balance' weth_decimals))
                  (\<lambda>weth_balance_formatted.
                io_bind (io_lift (format_amount_from_decimals usdc_balance' usdc_decimals))
                  (\<lambda>usdc_balance_formatted.
                io_bind (io_emit (Print (''WETH balance: '' @ weth_balance_formatted @
                                         '' WETH, USDC balance: '' @ usdc_balance_formatted @ '' USDC'')))
                  (\<lambda>u.
                io_bind (io_emit (Print (''WETH needed: '' @ amount_weth a @
                                         '', USDC needed: '' @ amount_usdc a))) (\<lambda>u'.
                approve_token wallet weth_address position_manager_address amount_weth_units)))))))
               on_creation_error) (\<lambda>tx1.
     io_bind (io_try (approve_token wallet usdc_address position_manager_address amount_usdc_units)
               on_creation_error) (\<lambda>tx2.
     create_liquidity_mint clock wallet a position_manager_address weth_address usdc_address
       amount_weth_units amount_usdc_units amount_weth_min amount_usdc_min))))))))))))))"

definition create_liquidity ::
    "(event list \<Rightarrow> int) \<Rightarrow> wallet_provider \<Rightarrow> exn + CreateLiquiditySchema \<Rightarrow> outcome \<times> event list" where
  "create_liquidity clock wallet args =
     run_handler (io_try (create_liquidity_body clock wallet args) on_creation_error)"

subsection \<open>\<open>get_price\<close>\<close>

text \<open>\<open>a / b\<close> on integers: the quotient correctly rounded to a float.\<close>

definition int_truediv :: "int \<Rightarrow> int \<Rightarrow> exn + pyfloat" where
  "int_truediv a b =
     (if b = 0 then Inl (Exn ZeroDivisionError ''division by zero'')
      else (case round_ratio (if 0 < b then a else - a) \<bar>b\<bar> of
              Finite m e \<Rightarrow> Inr (Finite m e)
            | _ \<Rightarrow> Inl (Exn OverflowError ''integer division result too large for a float'')))"

text \<open>
  \<open>x ** 2\<close> on a float, as CPython's \<open>float_pow\<close> computes it for the exponent \<open>2.0\<close>:
  NaN stays, an infinity gives \<open>inf\<close>, zero gives \<open>0.0\<close>, \<open>\<plusminus>1.0\<close> gives \<open>1.0\<close>, and
  every other value goes to the C library's \<open>pow(\<bar>x\<bar>, 2.0)\<close>, an overflow of which is
  raised as \<open>OverflowError\<close>.  The C library is a parameter: \<open>libm_pow2 v\<close> is its
  \<open>pow(v, 2.0)\<close>.
\<close>

definition is_one :: "int \<Rightarrow> int \<Rightarrow> bool" where
  "is_one m e = (e \<le> 0 \<and> m = 2 ^ nat (- e))"

definition float_pow2 :: "(pyfloat \<Rightarrow> pyfloat) \<Rightarrow> pyfloat \<Rightarrow> exn + pyfloat" where
  "float_pow2 libm_pow2 x =
     (case x of
        NaN \<Rightarrow> Inr NaN
      | PosInf \<Rightarrow> Inr PosInf
      | NegInf \<Rightarrow> Inr PosInf
      | Finite m e \<Rightarrow>
          if m = 0 then Inr (Finite 0 (- 1074))
          else if is_one \<bar>m\<bar> e then Inr float_one
          else (case libm_pow2 (Finite \<bar>m\<bar> e) of
                  PosInf \<Rightarrow> Inl (Exn OverflowError ''(34, 'Numerical result out of range')'')
                | NegInf \<Rightarrow> Inl (Exn OverflowError ''(34, 'Numerical result out of range')'')
                | r \<Rightarrow> Inr r))"

text \<open>\<open>f"{x:.6f}"\<close>: the exact value of the float rounded half-even to six decimals.\<close>

definition zfill6 :: "string \<Rightarrow> string" where
  "zfill6 s = replicate (6 - length s) CHR ''0'' @ s"

definition fixed6 :: "int \<Rightarrow> string" where
  "fixed6 r = str_nat (nat (r div 1000000)) @ ''.'' @ zfill6 (str_nat (nat (r mod 1000000)))"

definition format_6f :: "pyfloat \<Rightarrow> string" where
  "format_6f x =
     (case x of
        NaN \<Rightarrow> ''nan''
      | PosInf \<Rightarrow> ''inf''
      | NegInf \<Rightarrow> ''-inf''
      | Finite m e \<Rightarrow>
          (if m < 0 then ''-'' else []) @
          fixed6 (if 0 \<le> e then round_half_even (\<bar>m\<bar> * 2 ^ nat e * 1000000) 1
                  else round_half_even (\<bar>m\<bar> * 1000000) (2 ^ nat (- e))))"

text \<open>
  The price as the specification words it, \<open>(sqrtPriceX96 / 2^96)^2 * 10^(decimalsWETH - decimalsUSDC)\<close>
  with \<open>decimalsWETH = 18\<close> and \<open>decimalsUSDC = 6\<close>, each operation being Python's.
\<close>

definition spot_price :: "(pyfloat \<Rightarrow> pyfloat) \<Rightarrow> int \<Rightarrow> exn + pyfloat" where
  "spot_price libm_pow2 sqrtPriceX96 =
     (case int_truediv sqrtPriceX96 (2 ^ 96) of
        Inl e \<Rightarrow> Inl e
      | Inr ratio \<Rightarrow>
          (case float_pow2 libm_pow2 ratio of
             Inl e \<Rightarrow> Inl e
           | Inr squared \<Rightarrow>
               (case float_of_int (10 ^ (18 - 6)) of
                  Inl e \<Rightarrow> Inl e
                | Inr scale \<Rightarrow> Inr (float_mul squared scale))))"

definition zero_address :: string where
  "zero_address = ''0x0000000000000000000000000000000000000000''"

text \<open>
  \<open>get_price(wallet_provider, args)\<close>.  Only three steps stand in a \<open>try\<close>: the asset
  addresses, the \<open>getPool\<close> read and the \<open>slot0\<close> read.
\<close>

definition get_price_body ::
    "(pyfloat \<Rightarrow> pyfloat) \<Rightarrow> wallet_provider \<Rightarrow> exn + GetPriceSchema \<Rightarrow> string io" where
  "get_price_body libm_pow2 wallet args =
     io_bind (io_lift args) (\<lambda>a.
     io_bind (io_call GetNetwork (get_network wallet)) (\<lambda>n.
     if \<not> supports_network n
     then io_return (''Error: Network '' @ str_opt (network_id n) @ '' is not supported by Uniswap V3'')
     else
     io_bind (io_try
               (io_bind (io_lift (get_asset_address n ''weth'')) (\<lambda>w.
                io_bind (io_lift (get_asset_address n ''usdc'')) (\<lambda>u. io_pure (w, u))))
               (\<lambda>e. io_return (''Error: Could not get asset addresses: '' @ exn_str e)))
       (\<lambda>(weth_address, usdc_address).
     io_bind (io_lift (getitem UNISWAP_V3_FACTORY_ADDRESS (network_id n))) (\<lambda>factory.
     io_bind (io_lift (to_checksum_address factory)) (\<lambda>factory_address.
     io_bind (io_try
               (io_bind (io_lift (to_checksum_address weth_address)) (\<lambda>tokenA.
                io_bind (io_lift (to_checksum_address usdc_address)) (\<lambda>tokenB.
                io_call (ReadContract factory_address ''getPool''
                           [AbiAddress tokenA, AbiAddress tokenB, AbiUint (price_fee_tier a)])
                  (\<lambda>tr. read_contract_getPool wallet tr factory_address tokenA tokenB (price_fee_tier a)))))
               (\<lambda>e. io_return (''Error: Failed to fetch pool address: '' @ exn_str e)))
       (\<lambda>pool_address.
     if pool_address = zero_address
     then io_bind (io_lift (py_str (price_fee_tier a))) (\<lambda>f.
          io_return (''Error: No pool found for fee tier '' @ f))
     else
     io_bind (io_lift (to_checksum_address pool_address)) (\<lambda>pool_address'.
     io_bind (io_try
               (io_call (ReadContract pool_address' ''slot0'' [])
                  (\<lambda>tr. read_contract_slot0 wallet tr pool_address'))
               (\<lambda>e. io_return (''Error fetching pool state (slot0): '' @ exn_str e)))
       (\<lambda>(sqrt_price_x96, current_tick).
     io_bind (io_lift (getitem ASSET_DECIMALS (Some ''weth''))) (\<lambda>decimals_weth.
     io_bind (io_lift (getitem ASSET_DECIMALS (Some ''usdc''))) (\<lambda>decimals_usdc.
     io_bind (io_lift (int_truediv sqrt_price_x96 (2 ^ 96))) (\<lambda>ratio.
     io_bind (io_lift (float_pow2 libm_pow2 ratio)) (\<lambda>price_ratio.
     io_bind (io_lift (float_of_int (10 ^ (decimals_weth - decimals_usdc)))) (\<lambda>scale.
     io_bind (io_lift (py_str current_tick)) (\<lambda>tick.
     io_return (''Current WETH/USDC price: '' @ format_6f (float_mul price_ratio scale) @
                '' USDC per WETH (tick: '' @ tick @ '')'')))))))))))))))"

definition get_price ::
    "(pyfloat \<Rightarrow> pyfloat) \<Rightarrow> wallet_provider \<Rightarrow> exn + GetPriceSchema \<Rightarrow> outcome \<times> event list" where
  "get_price libm_pow2 wallet args = run_handler (get_price_body libm_pow2 wallet args)"

section \<open>A wallet provider to run the handlers on\<close>

text \<open>
  A provider on which every call succeeds, used to run the handlers on concrete
  inputs: it reports the given network, the given balances of WETH and USDC, the
  given pool address and the given \<open>slot0\<close> pair, and accepts every transaction.
\<close>

definition mainnet :: network where
  "mainnet = \<lparr>protocol_family = ''evm'', network_id = Some ''ethereum-mainnet'', chain_id = Some ''1''\<rparr>"

definition example_wallet :: "network \<Rightarrow> int \<Rightarrow> int \<Rightarrow> string \<Rightarrow> int \<times> int \<Rightarrow> wallet_provider" where
  "example_wallet n weth_balance usdc_balance pool slot =
     \<lparr>get_network = (\<lambda>tr. Inr n),
      get_address = (\<lambda>tr. Inr ''0x00000000000000000000000000000000000000aa''),
      read_contract_balanceOf =
        (\<lambda>tr token owner.
           Inr (if token = ''0xc02aaa39b223fe8d0a0e5c4f27ead9083c756cc2'' then weth_balance
                else usdc_balance)),
      read_contract_getPool = (\<lambda>tr factory tokenA tokenB f. Inr pool),
      read_contract_slot0 = (\<lambda>tr p. Inr slot),
      send_transaction = (\<lambda>tr tx. Inr ''0xfeed''),
      wait_for_transaction_receipt = (\<lambda>tr h. Inr \<lparr>receipt_status = 1, receipt_logs = []\<rparr>),
      web3 = (\<lambda>tr. Inr ()),
      web3_eth_contract = (\<lambda>tr a. Inr ()),
      mint_encode_transaction_data = (\<lambda>tr p. Inr ''0x88316456'')\<rparr>"

text \<open>A C library whose \<open>pow(v, 2.0)\<close> is the correctly rounded square.\<close>

definition libm_pow2_exact :: "pyfloat \<Rightarrow> pyfloat" where
  "libm_pow2_exact v =
     (case v of Finite m e \<Rightarrow> round_scaled (m * m) 1 (2 * e) | NaN \<Rightarrow> NaN | _ \<Rightarrow> PosInf)"

text \<open>Events that submit a transaction, and reads of a pool's \<open>slot0\<close>.\<close>

definition is_transaction :: "event \<Rightarrow> bool" where
  "is_transaction ev = (case ev of SendTransaction tx \<Rightarrow> True | _ \<Rightarrow> False)"

definition is_slot0_read :: "event \<Rightarrow> bool" where
  "is_slot0_read ev = (case ev of ReadContract a f args \<Rightarrow> f = ''slot0'' | _ \<Rightarrow> False)"

section \<open>Tick alignment\<close>





section \<open>Evaluation rules\<close>

lemma replicate_numeral: "replicate (numeral k) x = x # replicate (pred_numeral k) x"
  by (simp add: numeral_eq_Suc)

lemmas str_eval = py_lower_def lower_char_def py_int_def strip_with_def is_int_space_def
  is_str_space_def is_digit_def digits_val_def digit_val_def py_ljust_def py_rstrip_def
  replicate_numeral digit_char_def str_nat.simps num_digits.simps str_int_def Let_def
  max_str_digits_def py_str_def

lemmas dec_eval = Decimal_of_int_def decimal_fix_def exp_min_of_def round_to_exp_def decimal_mul_def decimal_truediv_def
  decimal_to_int_def decimal_str_def Decimal_of_str_def parse_exponent_def strip_zeros.simps
  prec_def Emax_def Emin_def Etiny_def Etop_def
  fits_max_context_def MAX_PREC_def MAX_EMAX_def MIN_EMIN_def MIN_ETINY_def

lemmas float_eval = round_ratio_def round_at_def pack_def round_scaled_def floor_log2_def
  floor_log2_from_def round_half_even_def nearest_even_def bitlen.simps float_literal_def
  float_of_int_def float_truediv_def float_sub_def float_add_def float_neg_def float_mul_def
  float_to_int_def

section \<open>Amounts: \<open>format_amount_with_decimals\<close> and \<open>format_amount_from_decimals\<close>\<close>

lemma format_amount_with_decimals_tenth:
  "format_amount_with_decimals ''0.1'' 18 = Inr 100000000000000000"
  by (simp add: format_amount_with_decimals_def str_eval)

lemma format_amount_with_decimals_thousand:
  "format_amount_with_decimals ''1000'' 6 = Inr 1000000000"
  by (simp add: format_amount_with_decimals_def str_eval)

lemma format_amount_with_decimals_exponent:
  "format_amount_with_decimals ''1.5e3'' 6 = Inr 1500000000"
  by (simp add: format_amount_with_decimals_def str_eval dec_eval)

lemma lower_char_digit: "is_digit c \<Longrightarrow> lower_char c = c"
  by (simp add: is_digit_def, elim disjE, simp_all add: lower_char_def)

lemma digit_not_e: "is_digit c \<Longrightarrow> c \<noteq> CHR ''e'' \<and> c \<noteq> CHR ''.'' \<and> c \<noteq> CHR ''_''"
  by (auto simp: is_digit_def)

lemma digit_not_space: "is_digit c \<Longrightarrow> \<not> is_int_space c"
  by (auto simp: is_digit_def is_int_space_def)

lemma py_lower_digits: "list_all is_digit s \<Longrightarrow> py_lower s = s"
  by (induction s) (auto simp: py_lower_def lower_char_digit)

lemma digits_no_char:
  "list_all is_digit s \<Longrightarrow> CHR ''e'' \<notin> set s \<and> CHR ''.'' \<notin> set s \<and> CHR ''_'' \<notin> set s"
  by (induction s) (auto dest: digit_not_e)

lemma py_split_nonempty: "py_split sep s \<noteq> []"
  by (induction s) (auto split: list.splits)

lemma py_split_nosep: "sep \<notin> set s \<Longrightarrow> py_split sep s = [s]"
  by (induction s) auto

lemma py_split_append: "sep \<notin> set a \<Longrightarrow> py_split sep (a @ sep # b) = a # py_split sep b"
  by (induction a) (auto split: list.splits simp: py_split_nonempty)

lemma valid_int_body_digits: "s \<noteq> [] \<Longrightarrow> list_all is_digit s \<Longrightarrow> valid_int_body s"
  by (induction s rule: valid_int_body.induct) (auto dest: digit_not_e)

lemma filter_underscore_digits: "list_all is_digit s \<Longrightarrow> filter (\<lambda>x. x \<noteq> CHR ''_'') s = s"
  by (induction s) (auto dest: digit_not_e)

lemma strip_with_id: "s \<noteq> [] \<Longrightarrow> \<not> sp (hd s) \<Longrightarrow> \<not> sp (last s) \<Longrightarrow> strip_with sp s = s"
proof -
  assume s: "s \<noteq> []" and h: "\<not> sp (hd s)" and l: "\<not> sp (last s)"
  have 1: "dropWhile sp s = s" using s h by (cases s) auto
  have "rev s \<noteq> []" "\<not> sp (hd (rev s))" using s l by (simp_all add: hd_rev)
  then have 2: "dropWhile sp (rev s) = rev s" by (cases "rev s") auto
  show ?thesis by (simp add: strip_with_def 1 2)
qed

lemma last_digit: "s \<noteq> [] \<Longrightarrow> list_all is_digit s \<Longrightarrow> is_digit (last s)"
  by (induction s) auto

lemma py_int_digits:
  assumes "s \<noteq> []" "list_all is_digit s"
  shows "py_int s = (if length s \<le> max_str_digits then Some (int (digits_val s)) else None)"
proof -
  obtain c cs where s: "s = c # cs" using assms(1) by (cases s) auto
  have c: "is_digit c" using assms(2) s by simp
  have "strip_with is_int_space s = s"
    using assms c s last_digit[OF assms] by (intro strip_with_id) (auto dest: digit_not_space)
  moreover have "c \<noteq> CHR ''-''" "c \<noteq> CHR ''+''" using c by (auto simp: is_digit_def)
  ultimately show ?thesis
    using valid_int_body_digits[OF assms] filter_underscore_digits[OF assms(2)] s
    by (simp add: py_int_def)
qed

lemma py_int_minus_digits:
  assumes "s \<noteq> []" "list_all is_digit s"
  shows "py_int (CHR ''-'' # s) =
     (if length s \<le> max_str_digits then Some (- int (digits_val s)) else None)"
proof -
  have "\<not> is_int_space CHR ''-''" by (simp add: is_int_space_def)
  then have "strip_with is_int_space (CHR ''-'' # s) = CHR ''-'' # s"
    using assms last_digit[OF assms] by (intro strip_with_id) (auto dest: digit_not_space)
  then show ?thesis
    using valid_int_body_digits[OF assms] filter_underscore_digits[OF assms(2)]
    by (simp add: py_int_def)
qed

lemma py_int_empty: "py_int [] = None"
  by (simp add: py_int_def strip_with_def)

lemma is_digit_zero: "is_digit CHR ''0''"
  by (simp add: is_digit_def)

text \<open>The number a digit string spells.\<close>

lemma digits_val_snoc: "digits_val (s @ [c]) = 10 * digits_val s + digit_val c"
  by (simp add: digits_val_def)

lemma digits_val_append: "digits_val (a @ b) = digits_val a * 10 ^ length b + digits_val b"
proof (induction b rule: rev_induct)
  case Nil
  show ?case by (simp add: digits_val_def)
next
  case (snoc c b)
  have "digits_val (a @ b @ [c]) = 10 * digits_val (a @ b) + digit_val c"
    using digits_val_snoc[of "a @ b" c] by simp
  then show ?case using snoc by (simp add: digits_val_snoc algebra_simps)
qed

lemma digit_val_less: "is_digit c \<Longrightarrow> digit_val c < 10"
  by (auto simp: is_digit_def digit_val_def)

lemma digits_val_less: "list_all is_digit s \<Longrightarrow> digits_val s < 10 ^ length s"
proof (induction s rule: rev_induct)
  case Nil
  show ?case by (simp add: digits_val_def)
next
  case (snoc c s)
  then have "digits_val s < 10 ^ length s" "digit_val c < 10" by (simp_all add: digit_val_less)
  then have "10 * digits_val s + digit_val c < 10 * 10 ^ length s" by linarith
  then show ?case by (simp add: digits_val_snoc)
qed

lemma digits_val_zeros: "digits_val (replicate k CHR ''0'') = 0"
proof (induction k)
  case 0
  show ?case by (simp add: digits_val_def)
next
  case (Suc k)
  have "replicate (Suc k) CHR ''0'' = replicate k CHR ''0'' @ ''0''"
    by (simp add: replicate_append_same)
  then show ?case using Suc by (simp only: digits_val_snoc) (simp add: digit_val_def)
qed

text \<open>
  The fraction as the code cuts or pads it to \<open>d\<close> places spells the whole number of
  atomic units in \<open>0.f\<close>, that is \<open>0.f * 10 ^ d\<close> rounded down.
\<close>

lemma fraction_value:
  assumes "list_all is_digit f"
  shows "digits_val (if d < length f then take d f else py_ljust f d CHR ''0'') =
     digits_val f * 10 ^ d div 10 ^ length f"
proof (cases "d < length f")
  case True
  have "list_all is_digit (drop d f)" using assms by (auto simp: list_all_iff dest: in_set_dropD)
  then have lt: "digits_val (drop d f) < 10 ^ (length f - d)"
    using digits_val_less[of "drop d f"] by simp
  have "digits_val f = digits_val (take d f @ drop d f)" by simp
  also have "\<dots> = digits_val (take d f) * 10 ^ (length f - d) + digits_val (drop d f)"
    by (simp only: digits_val_append length_drop)
  finally have f: "digits_val f = digits_val (take d f) * 10 ^ (length f - d) + digits_val (drop d f)" .
  have "(10::nat) ^ length f = 10 ^ d * 10 ^ (length f - d)"
    using True by (simp add: power_add[symmetric])
  then have "digits_val f * 10 ^ d div 10 ^ length f = digits_val f div 10 ^ (length f - d)"
    by (simp add: mult.commute)
  also have "\<dots> = digits_val (take d f)" using lt by (simp add: f)
  finally show ?thesis using True by simp
next
  case False
  then have "(10::nat) ^ d = 10 ^ (d - length f) * 10 ^ length f"
    by (simp add: power_add[symmetric])
  then have "digits_val f * 10 ^ d div 10 ^ length f = digits_val f * 10 ^ (d - length f)"
    by simp
  then show ?thesis
    using False by (simp add: py_ljust_def digits_val_append digits_val_zeros)
qed

lemma fraction_digits:
  assumes "list_all is_digit f"
  shows "length (if d < length f then take d f else py_ljust f d CHR ''0'') = d \<and>
     list_all is_digit (if d < length f then take d f else py_ljust f d CHR ''0'')"
proof (cases "d < length f")
  case True
  have "list_all is_digit (take d f)"
    using assms by (auto simp: list_all_iff dest: in_set_takeD)
  then show ?thesis using True by simp
next
  case False
  have "list_all is_digit (py_ljust f d CHR ''0'')"
    using assms by (auto simp: py_ljust_def list_all_iff is_digit_zero)
  then show ?thesis using False by (simp add: py_ljust_def)
qed

lemma format_negative_amount:
  assumes w: "w \<noteq> []" "list_all is_digit w" and f: "list_all is_digit f"
  shows "format_amount_with_decimals (CHR ''-'' # w @ CHR ''.'' # f) d =
       (if length w \<le> max_str_digits \<and> 0 < d \<and> d \<le> max_str_digits
        then Inr (- (int (digits_val w) * 10 ^ d) + int (digits_val f * 10 ^ d div 10 ^ length f))
        else Inl (invalid_amount (CHR ''-'' # w @ CHR ''.'' # f)))"
proof -
  let ?fr = "if d < length f then take d f else py_ljust f d CHR ''0''"
  have "py_lower (CHR ''-'' # w @ CHR ''.'' # f) = CHR ''-'' # w @ CHR ''.'' # f"
    using py_lower_digits[OF w(2)] py_lower_digits[OF f]
    by (simp add: py_lower_def lower_char_def)
  then have no_e: "CHR ''e'' \<notin> set (py_lower (CHR ''-'' # w @ CHR ''.'' # f))"
    using digits_no_char[OF w(2)] digits_no_char[OF f] by simp
  have "CHR ''.'' \<notin> set (CHR ''-'' # w)" using digits_no_char[OF w(2)] by simp
  then have "py_split CHR ''.'' ((CHR ''-'' # w) @ CHR ''.'' # f) = (CHR ''-'' # w) # py_split CHR ''.'' f"
    by (rule py_split_append)
  then have split: "py_split CHR ''.'' (CHR ''-'' # w @ CHR ''.'' # f) = [CHR ''-'' # w, f]"
    using digits_no_char[OF f] by (simp add: py_split_nosep)
  have len: "length ?fr = d" and dig: "list_all is_digit ?fr"
    using fraction_digits[OF f, of d] by simp_all
  have frac: "py_int ?fr =
      (if 0 < d \<and> d \<le> max_str_digits then Some (int (digits_val f * 10 ^ d div 10 ^ length f))
       else None)"
  proof (cases "d = 0")
    case True
    then have "?fr = []" using len by simp
    then show ?thesis using True by (simp only: py_int_empty) simp
  next
    case False
    then have "?fr \<noteq> []" using len by auto
    then show ?thesis
      using py_int_digits[OF _ dig] len False fraction_value[OF f, of d] by simp
  qed
  have "format_amount_with_decimals (CHR ''-'' # w @ CHR ''.'' # f) d =
      (case py_int (CHR ''-'' # w) of
         None \<Rightarrow> Inl (invalid_amount (CHR ''-'' # w @ CHR ''.'' # f))
       | Some x \<Rightarrow>
           (case py_int ?fr of
              None \<Rightarrow> Inl (invalid_amount (CHR ''-'' # w @ CHR ''.'' # f))
            | Some y \<Rightarrow> Inr (x * 10 ^ d + y)))"
    unfolding format_amount_with_decimals_def using no_e split by (simp add: Let_def)
  then show ?thesis
    by (simp only: frac py_int_minus_digits[OF w]) simp
qed

text \<open>
  Claim C10 fails as stated: a negative decimal string is not accepted whatever the
  decimal count.  With no decimals the fraction is cut to the empty string, which
  \<open>int\<close> refuses, so \<open>"-1.5"\<close> is rejected as an invalid amount.
\<close>

theorem negative_amount_rejected_without_decimals:
  "format_amount_with_decimals ''-1.5'' 0 = Inl (invalid_amount ''-1.5'')"
  by (simp add: format_amount_with_decimals_def str_eval)

text \<open>
  Claim C10, amended.  For a whole part \<open>- w\<close> and a fraction \<open>f\<close> (digit strings, \<open>w\<close>
  not empty), the amount \<open>"-w.f"\<close> is accepted exactly when \<open>w\<close> has at most 4300 digits
  and the decimal count \<open>d\<close> lies between 1 and 4300, the limit of \<open>int\<close> on the digits
  of a string.  It then yields \<open>- w * 10 ^ d\<close> plus the atomic units of the fraction
  (\<open>0.f * 10 ^ d\<close> rounded down): the fraction is added to the scaled negative whole
  part, not subtracted from it.  So \<open>"-1.5"\<close> with 6 decimals gives \<open>- 500000\<close>, not
  \<open>- 1500000\<close>.  In every other case the amount is refused as an invalid amount.
\<close>

theorem negative_amount_adds_fraction:
  "w \<noteq> [] \<Longrightarrow> list_all is_digit w \<Longrightarrow> list_all is_digit f \<Longrightarrow>
     format_amount_with_decimals (CHR ''-'' # w @ CHR ''.'' # f) d =
       (if length w \<le> max_str_digits \<and> 0 < d \<and> d \<le> max_str_digits
        then Inr (- (int (digits_val w) * 10 ^ d) + int (digits_val f * 10 ^ d div 10 ^ length f))
        else Inl (invalid_amount (CHR ''-'' # w @ CHR ''.'' # f)))"
  by (rule format_negative_amount)

theorem negative_amount_adds_fraction_witness:
  "''1'' \<noteq> [] \<and> list_all is_digit ''1'' \<and> list_all is_digit ''5'' \<and>
   format_amount_with_decimals ''-1.5'' 6 = Inr (- 500000) \<and>
   format_amount_with_decimals ''-1.5'' 6 \<noteq> Inr (- 1500000)"
  using negative_amount_adds_fraction[of "''1''" "''5''" 6]
  by (simp add: str_eval)

text \<open>
  Claim C7 (the code departs from it).  The string \<open>"1.-5"\<close> is not a decimal number,
  yet it is not refused: the sign is read as part of the padded fraction \<open>"-50000"\<close>
  and the call returns \<open>950000\<close>.
\<close>

theorem malformed_amount_accepted:
  "format_amount_with_decimals ''1.-5'' 6 = Inr 950000"
  by (simp add: format_amount_with_decimals_def str_eval)

lemma valid_amount_refused_without_decimals:
  "format_amount_with_decimals ''1.5'' 0 = Inl (invalid_amount ''1.5'')"
  by (simp add: format_amount_with_decimals_def str_eval)

lemma malformed_exponent_amount_is_not_value_error:
  "format_amount_with_decimals ''1e'' 18 = Inl decimal_ConversionSyntax"
  by (simp add: format_amount_with_decimals_def str_eval dec_eval)

lemma sign_of_negative_fraction_lost:
  "format_amount_with_decimals ''-0.5'' 6 = Inr 500000"
  by (simp add: format_amount_with_decimals_def str_eval)

text \<open>
  Claim C3 (the code departs from it).  \<open>"0.00000000015"\<close> with 18 decimals is
  150000000 atomic units; formatting them back goes through \<open>str(Decimal)\<close>, which
  answers \<open>1.5E-10\<close>, and stripping the trailing zeros of that text leaves \<open>1.5E-1\<close>, a
  tenth and a half instead of the value that went in.
\<close>

theorem round_trip_breaks_on_exponent:
  "format_amount_with_decimals ''0.00000000015'' 18 = Inr 150000000 \<and>
   format_amount_from_decimals 150000000 18 = Inr ''1.5E-1''"
  by (simp add: format_amount_with_decimals_def format_amount_from_decimals_def str_eval dec_eval)

lemma format_amount_from_decimals_plain:
  "format_amount_from_decimals 1500000 6 = Inr ''1.5'' \<and>
   format_amount_from_decimals 1000000000000000000 18 = Inr ''1''"
  by (simp add: format_amount_from_decimals_def str_eval dec_eval)

section \<open>Slippage\<close>





lemma slippage_truncates_toward_zero:
  "calculate_slippage_amounts 1 (float_literal 150 1) = Inr 0 \<and> \<lfloor>(1 :: rat) * (1 - 150 / 100)\<rfloor> = - 1"
proof -
  have "\<lfloor>(1 :: rat) * (1 - 150 / 100)\<rfloor> = - 1" by (rule floor_unique) simp_all
  moreover have "calculate_slippage_amounts 1 (float_literal 150 1) = Inr 0"
    by (simp add: calculate_slippage_amounts_def float_eval)
  ultimately show ?thesis by simp
qed

lemma slippage_realistic_amount_rounded:
  "calculate_slippage_amounts 1234567890123456789 (float_literal 5 10) = Inr 1228395050672839424 \<and>
   \<lfloor>(1234567890123456789 :: rat) * (1 - (5 / 10) / 100)\<rfloor> = 1228395050672839505"
proof -
  have "\<lfloor>(1234567890123456789 :: rat) * (1 - (5 / 10) / 100)\<rfloor> = 1228395050672839505"
    by (rule floor_unique) simp_all
  moreover have "calculate_slippage_amounts 1234567890123456789 (float_literal 5 10) =
      Inr 1228395050672839424"
    by (simp add: calculate_slippage_amounts_def float_eval)
  ultimately show ?thesis by simp
qed



end
